theory Spec2Isabelle
  imports Complex_Main
begin

section \<open>JavaScript values\<close>

text \<open>
  The handlers of \<^verbatim>\<open>server/routes/*.js\<close> read request bodies parsed by
  \<^verbatim>\<open>express.json()\<close>, query strings parsed by Express and literals of their own, and
  hand objects to \<^verbatim>\<open>res.json\<close>. All of these are JavaScript values; an object is an
  association list of its own properties in insertion order, so that a property that is
  absent and a property that is \<^verbatim>\<open>null\<close> are different things.
  Numbers are the decimal literals of JSON, kept as rationals.
\<close>

datatype jsval =
    JUndefined
  | JNull
  | JBool bool
  | JNum rat
  | JStr string
  | JArr "jsval list"
  | JObj "(string \<times> jsval) list"

type_synonym obj = "(string \<times> jsval) list"

text \<open>\<^verbatim>\<open>!v\<close> is false exactly on the truthy values: everything except
  \<^verbatim>\<open>undefined\<close>, \<^verbatim>\<open>null\<close>, \<^verbatim>\<open>false\<close>, \<^verbatim>\<open>0\<close> and \<^verbatim>\<open>''\<close>.\<close>

fun truthy :: "jsval \<Rightarrow> bool" where
  "truthy JUndefined = False"
| "truthy JNull = False"
| "truthy (JBool b) = b"
| "truthy (JNum n) = (n \<noteq> 0)"
| "truthy (JStr s) = (s \<noteq> [])"
| "truthy (JArr xs) = True"
| "truthy (JObj kvs) = True"

text \<open>\<^verbatim>\<open>v.k\<close> for a name \<open>k\<close> that only an object can carry; the statements below read
  the bodies of responses with it, which are objects.\<close>

fun get_prop :: "jsval \<Rightarrow> string \<Rightarrow> jsval" where
  "get_prop (JObj kvs) k = (case map_of kvs k of None \<Rightarrow> JUndefined | Some v \<Rightarrow> v)"
| "get_prop v k = JUndefined"

text \<open>\<^verbatim>\<open>a || b\<close>\<close>

definition js_or :: "jsval \<Rightarrow> jsval \<Rightarrow> jsval" where
  "js_or a b = (if truthy a then a else b)"

text \<open>\<^verbatim>\<open>o.k\<close> on an object: the property's value, \<^verbatim>\<open>undefined\<close> when the object
  has no such property.\<close>

definition field :: "obj \<Rightarrow> string \<Rightarrow> jsval" where
  "field kvs k = (case map_of kvs k of None \<Rightarrow> JUndefined | Some v \<Rightarrow> v)"

text \<open>
  \<^verbatim>\<open>a === b\<close>. Primitives compare by value. Arrays and objects compare by
  reference; every comparison in the routes has, on one side, a value freshly parsed from
  the current request, which is never the same reference as a value stored earlier, so two
  arrays or two objects are never strictly equal here.
\<close>

fun strict_eq :: "jsval \<Rightarrow> jsval \<Rightarrow> bool" where
  "strict_eq JUndefined JUndefined = True"
| "strict_eq JNull JNull = True"
| "strict_eq (JBool a) (JBool b) = (a = b)"
| "strict_eq (JNum a) (JNum b) = (a = b)"
| "strict_eq (JStr a) (JStr b) = (a = b)"
| "strict_eq a b = False"

text \<open>\<^verbatim>\<open>n.toString()\<close> on a non-negative integer: its decimal digits.\<close>

definition digit_char :: "nat \<Rightarrow> char" where
  "digit_char d = ''0123456789'' ! d"

fun toString :: "nat \<Rightarrow> string" where
  "toString n = (if n < 10 then [digit_char n] else toString (n div 10) @ [digit_char (n mod 10)])"

declare toString.simps [simp del]

section \<open>Requests, responses, exceptions\<close>

record response =
  status :: nat
  body :: jsval

text \<open>\<^verbatim>\<open>res.status(c).json(v)\<close>; \<^verbatim>\<open>res.json(v)\<close> answers with status 200.\<close>

definition status_json :: "nat \<Rightarrow> jsval \<Rightarrow> response" where
  "status_json c v = \<lparr>status = c, body = v\<rparr>"

definition json :: "jsval \<Rightarrow> response" where
  "json v = status_json 200 v"

datatype exn = TypeError string

fun message :: "exn \<Rightarrow> string" where
  "message (TypeError m) = m"

text \<open>
  \<^verbatim>\<open>const { a, b } = req.body\<close>: raises a TypeError when \<^verbatim>\<open>req.body\<close> is
  \<^verbatim>\<open>undefined\<close> or \<^verbatim>\<open>null\<close> (no body parser ran on the request), and otherwise gives
  access to the properties; a primitive or an array has none of the names the handlers
  ask for.
\<close>

fun destructure :: "jsval \<Rightarrow> string \<Rightarrow> exn + obj" where
  "destructure JUndefined k =
     Inl (TypeError (''Cannot destructure property '' @ k @ '' of req.body as it is undefined.''))"
| "destructure JNull k =
     Inl (TypeError (''Cannot destructure property '' @ k @ '' of req.body as it is null.''))"
| "destructure (JObj kvs) k = Inr kvs"
| "destructure v k = Inr []"

section \<open>\<^verbatim>\<open>server/routes/personDetails.js\<close>\<close>

text \<open>The in-memory database the module starts with.\<close>

definition personDatabase :: "obj list" where
  "personDatabase =
    [ [ (''id'', JStr ''1''),
        (''faceId'', JStr ''face-001''),
        (''name'', JStr ''John Doe''),
        (''birthday'', JStr ''1990-05-15''),
        (''interests'', JArr [JStr ''technology'', JStr ''music'', JStr ''sports'']),
        (''occupation'', JStr ''Software Engineer''),
        (''location'', JStr ''New York, USA''),
        (''socialMedia'', JObj [(''instagram'', JStr ''@johndoe''), (''twitter'', JStr ''@johndoe'')]) ],
      [ (''id'', JStr ''2''),
        (''faceId'', JStr ''face-002''),
        (''name'', JStr ''Jane Smith''),
        (''birthday'', JStr ''1988-09-22''),
        (''interests'', JArr [JStr ''art'', JStr ''travel'', JStr ''photography'']),
        (''occupation'', JStr ''Photographer''),
        (''location'', JStr ''Los Angeles, USA''),
        (''socialMedia'', JObj [(''instagram'', JStr ''@janesmith''), (''twitter'', JStr ''@janesmith'')]) ] ]"

text \<open>
  Every handler takes the database and returns its response together with the database
  it leaves behind. \<^verbatim>\<open>req.query\<close> and \<^verbatim>\<open>req.params\<close> are always objects.
\<close>

text \<open>\<^verbatim>\<open>router.get('/search', ...)\<close>\<close>

definition get_search :: "obj list \<Rightarrow> obj \<Rightarrow> response \<times> obj list" where
  "get_search db query =
     (let faceId = field query ''faceId'' in
      if \<not> truthy faceId then
        (status_json 400 (JObj [(''error'', JStr ''faceId is required'')]), db)
      else
        (case find (\<lambda>p. strict_eq (field p ''faceId'') faceId) db of
           None \<Rightarrow>
             (status_json 404 (JObj
                [(''error'', JStr ''Person not found''),
                 (''message'', JStr ''No matching person found for the given faceId'')]), db)
         | Some person \<Rightarrow>
             (json (JObj [(''status'', JStr ''success''), (''person'', JObj person)]), db)))"

text \<open>\<^verbatim>\<open>router.get('/:personId', ...)\<close>; a route parameter is a string.\<close>

definition get_personId :: "obj list \<Rightarrow> string \<Rightarrow> response \<times> obj list" where
  "get_personId db personId =
     (case find (\<lambda>p. strict_eq (field p ''id'') (JStr personId)) db of
        None \<Rightarrow>
          (status_json 404 (JObj
             [(''error'', JStr ''Person not found''),
              (''message'', JStr ''No person found with the given ID'')]), db)
      | Some person \<Rightarrow>
          (json (JObj [(''status'', JStr ''success''), (''person'', JObj person)]), db))"

text \<open>The object literal \<^verbatim>\<open>newPerson\<close> of the POST handler.\<close>

definition newPerson :: "obj list \<Rightarrow> obj \<Rightarrow> obj" where
  "newPerson db b =
     [ (''id'', JStr (toString (length db + 1))),
       (''faceId'', field b ''faceId''),
       (''name'', field b ''name''),
       (''birthday'', js_or (field b ''birthday'') JNull),
       (''interests'', js_or (field b ''interests'') (JArr [])),
       (''occupation'', js_or (field b ''occupation'') JNull),
       (''location'', js_or (field b ''location'') JNull),
       (''socialMedia'', js_or (field b ''socialMedia'') (JObj [])) ]"

text \<open>\<^verbatim>\<open>router.post('/', ...)\<close>: the \<^verbatim>\<open>try\<close> block, then the handler with its
  \<^verbatim>\<open>catch\<close>.\<close>

definition post_person_try :: "obj list \<Rightarrow> jsval \<Rightarrow> exn + (response \<times> obj list)" where
  "post_person_try db reqbody =
     (case destructure reqbody ''name'' of
        Inl e \<Rightarrow> Inl e
      | Inr b \<Rightarrow>
          if \<not> truthy (field b ''name'') \<or> \<not> truthy (field b ''faceId'') then
            Inr (status_json 400 (JObj [(''error'', JStr ''Name and faceId are required'')]), db)
          else
            Inr (status_json 201 (JObj
                   [(''status'', JStr ''success''),
                    (''message'', JStr ''Person added successfully''),
                    (''person'', JObj (newPerson db b))]),
                 db @ [newPerson db b]))"

definition post_person :: "obj list \<Rightarrow> jsval \<Rightarrow> response \<times> obj list" where
  "post_person db reqbody =
     (case post_person_try db reqbody of
        Inr r \<Rightarrow> r
      | Inl e \<Rightarrow>
          (status_json 500 (JObj
             [(''error'', JStr ''Failed to add person''),
              (''message'', JStr (message e))]), db))"

text \<open>\<^verbatim>\<open>router.get('/', ...)\<close>\<close>

definition get_all :: "obj list \<Rightarrow> response \<times> obj list" where
  "get_all db =
     (json (JObj
        [(''status'', JStr ''success''),
         (''count'', JNum (of_nat (length db))),
         (''persons'', JArr (map JObj db))]), db)"

section \<open>\<^verbatim>\<open>server/routes/facialRecognition.js\<close>\<close>

text \<open>
  The handlers read the system clock: \<^verbatim>\<open>Date.now()\<close> gives milliseconds since the
  epoch and \<^verbatim>\<open>new Date().toISOString()\<close> the same instant as text. What the clock
  shows when a handler runs is an argument of the model.
\<close>

record clock =
  Date_now :: nat
  toISOString :: string

text \<open>\<^verbatim>\<open>req.file\<close> as multer's disk storage fills it in; it is \<^verbatim>\<open>undefined\<close> when the
  request carried no file under the key \<^verbatim>\<open>video\<close>.\<close>

record upload_file =
  originalname :: string
  filename :: string
  path :: string

text \<open>\<^verbatim>\<open>router.post('/process', upload.single('video'), ...)\<close>\<close>

definition post_process :: "clock \<Rightarrow> upload_file option \<Rightarrow> response" where
  "post_process clk reqfile =
     (case reqfile of
        None \<Rightarrow> status_json 400 (JObj [(''error'', JStr ''No video file uploaded'')])
      | Some f \<Rightarrow>
          json (JObj
            [(''processId'', JStr (toString (Date_now clk))),
             (''videoFile'', JStr (filename f)),
             (''status'', JStr ''processing''),
             (''detectedFaces'', JArr []),
             (''message'', JStr ''Video uploaded successfully. Configure facial recognition API in .env for actual processing.'')]))"

text \<open>The array literal \<^verbatim>\<open>mockFaces\<close> of the frame handler.\<close>

definition mockFaces :: "jsval list" where
  "mockFaces =
     [ JObj
        [(''faceId'', JStr ''face-1''),
         (''confidence'', JNum (95 / 100)),
         (''boundingBox'', JObj [(''x'', JNum 100), (''y'', JNum 100), (''width'', JNum 200), (''height'', JNum 200)]),
         (''attributes'', JObj [(''age'', JNum 25), (''gender'', JStr ''unknown''), (''emotion'', JStr ''neutral'')])] ]"

text \<open>\<^verbatim>\<open>router.post('/analyze-frame', ...)\<close>\<close>

definition post_analyze_frame_try :: "clock \<Rightarrow> jsval \<Rightarrow> exn + response" where
  "post_analyze_frame_try clk reqbody =
     (case destructure reqbody ''imageData'' of
        Inl e \<Rightarrow> Inl e
      | Inr b \<Rightarrow>
          if \<not> truthy (field b ''imageData'') then
            Inr (status_json 400 (JObj [(''error'', JStr ''Image data is required'')]))
          else
            Inr (json (JObj
                   [(''status'', JStr ''success''),
                    (''facesDetected'', JNum (of_nat (length mockFaces))),
                    (''faces'', JArr mockFaces),
                    (''timestamp'', JStr (toISOString clk))])))"

definition post_analyze_frame :: "clock \<Rightarrow> jsval \<Rightarrow> response" where
  "post_analyze_frame clk reqbody =
     (case post_analyze_frame_try clk reqbody of
        Inr r \<Rightarrow> r
      | Inl e \<Rightarrow>
          status_json 500 (JObj
            [(''error'', JStr ''Failed to analyze frame''),
             (''message'', JStr (message e))]))"

text \<open>\<^verbatim>\<open>router.get('/results/:processId', ...)\<close>\<close>

definition get_results :: "clock \<Rightarrow> string \<Rightarrow> response" where
  "get_results clk processId =
     json (JObj
       [(''processId'', JStr processId),
        (''status'', JStr ''completed''),
        (''detectedFaces'', JArr []),
        (''timestamp'', JStr (toISOString clk))])"

section \<open>\<^verbatim>\<open>server/routes/livestream.js\<close>\<close>

text \<open>\<^verbatim>\<open>router.post('/capture', ...)\<close>\<close>

definition post_capture_try :: "clock \<Rightarrow> jsval \<Rightarrow> exn + response" where
  "post_capture_try clk reqbody =
     (case destructure reqbody ''livestreamUrl'' of
        Inl e \<Rightarrow> Inl e
      | Inr b \<Rightarrow>
          if \<not> truthy (field b ''livestreamUrl'') then
            Inr (status_json 400 (JObj [(''error'', JStr ''Livestream URL is required'')]))
          else
            Inr (json (JObj
                   [(''status'', JStr ''success''),
                    (''message'', JStr ''Livestream capture initiated''),
                    (''livestreamUrl'', field b ''livestreamUrl''),
                    (''captureId'', JStr (toString (Date_now clk))),
                    (''note'', JStr ''Configure Instagram API credentials in .env file for actual implementation'')])))"

definition post_capture :: "clock \<Rightarrow> jsval \<Rightarrow> response" where
  "post_capture clk reqbody =
     (case post_capture_try clk reqbody of
        Inr r \<Rightarrow> r
      | Inl e \<Rightarrow>
          status_json 500 (JObj
            [(''error'', JStr ''Failed to capture livestream''),
             (''message'', JStr (message e))]))"

text \<open>\<^verbatim>\<open>router.get('/status/:captureId', ...)\<close>\<close>

definition get_status :: "clock \<Rightarrow> string \<Rightarrow> response" where
  "get_status clk captureId =
     json (JObj
       [(''captureId'', JStr captureId),
        (''status'', JStr ''processing''),
        (''framesProcessed'', JNum 0),
        (''timestamp'', JStr (toISOString clk))])"

section \<open>\<^verbatim>\<open>server/index.js\<close>\<close>

text \<open>\<^verbatim>\<open>app.get('/api/health', ...)\<close>\<close>

definition get_health :: "clock \<Rightarrow> response" where
  "get_health clk =
     json (JObj
       [(''status'', JStr ''ok''),
        (''message'', JStr ''Facial Recognition API is running''),
        (''timestamp'', JStr (toISOString clk))])"

text \<open>
  The routes the application mounts. The only state that outlives a request is the
  array \<^verbatim>\<open>personDatabase\<close> of the person-details module; the other two routers hold
  none. \<open>PersonGet seg q\<close> is a GET below \<^verbatim>\<open>/api/person-details\<close> with the one
  path segment \<open>seg\<close> after it (empty for the mount point itself) and the parsed query
  \<open>q\<close>: the router tries \<^verbatim>\<open>/search\<close> first,
  then \<^verbatim>\<open>/:personId\<close>, which needs a non-empty segment, then \<^verbatim>\<open>/\<close>.
\<close>

datatype request =
    LivestreamCapture jsval
  | LivestreamStatus string
  | FacialProcess "upload_file option"
  | FacialAnalyzeFrame jsval
  | FacialResults string
  | PersonGet string obj
  | PersonAdd jsval
  | Health

fun app :: "clock \<Rightarrow> obj list \<Rightarrow> request \<Rightarrow> response \<times> obj list" where
  "app clk db (LivestreamCapture b) = (post_capture clk b, db)"
| "app clk db (LivestreamStatus c) = (get_status clk c, db)"
| "app clk db (FacialProcess f) = (post_process clk f, db)"
| "app clk db (FacialAnalyzeFrame b) = (post_analyze_frame clk b, db)"
| "app clk db (FacialResults p) = (get_results clk p, db)"
| "app clk db (PersonGet seg q) =
     (if seg = ''search'' then get_search db q
      else if seg = [] then get_all db
      else get_personId db seg)"
| "app clk db (PersonAdd b) = post_person db b"
| "app clk db Health = (get_health clk, db)"

text \<open>A server run: the requests are handled one after the other, each on the database
  its predecessor left.\<close>

fun run :: "obj list \<Rightarrow> (clock \<times> request) list \<Rightarrow> obj list" where
  "run db [] = db"
| "run db ((clk, r) # rs) = run (snd (app clk db r)) rs"

section \<open>The Entity Extractor\<close>

text \<open>
  Modelled from the spec: the Entity Extractor (section 4.3) with its two strategies and
  the fallback from the AI-assisted one to the pattern-based one. The extraction code of
  the Python backend (\<^verbatim>\<open>backend/services\<close>) is missing from the sources, which only
  document it. An extracted entity is the spec's
  "{field, value, strength}".
\<close>

datatype entity_value = Text string | Number nat

record extracted_entity =
  e_field :: string
  e_value :: entity_value
  e_strength :: real

text \<open>Modelled from the spec: the AI backend client,
  "extractEntities(text) -> list of {field, value, strength} | Error"; a reply that does
  not parse is \<open>MalformedReply\<close>.\<close>

datatype backend_reply =
    BackendError string
  | MalformedReply
  | Entities "extracted_entity list"

text \<open>Modelled from the spec: the character classes that the patterns of section 4.3 speak
  of, over ASCII.\<close>

definition is_upper :: "char \<Rightarrow> bool" where
  "is_upper c = (c \<in> set ''ABCDEFGHIJKLMNOPQRSTUVWXYZ'')"

definition is_lower :: "char \<Rightarrow> bool" where
  "is_lower c = (c \<in> set ''abcdefghijklmnopqrstuvwxyz'')"

definition is_digit :: "char \<Rightarrow> bool" where
  "is_digit c = (c \<in> set ''0123456789'')"

text \<open>Modelled from the spec: \<^verbatim>\<open>\w\<close> and \<^verbatim>\<open>\s\<close> of the age pattern.\<close>

definition is_word_char :: "char \<Rightarrow> bool" where
  "is_word_char c = (is_upper c \<or> is_lower c \<or> is_digit c \<or> c = CHR ''_'')"

definition is_whitespace :: "char \<Rightarrow> bool" where
  "is_whitespace c = (c \<in> set [CHR '' '', CHR 0x09, CHR 0x0A, CHR 0x0B, CHR 0x0C, CHR 0x0D])"

text \<open>Modelled from the spec: \<^verbatim>\<open>\b\<close> of the age pattern in front of the rest of a text,
  after a word character: the rest does not go on with a word character.\<close>

fun word_ends :: "string \<Rightarrow> bool" where
  "word_ends [] = True"
| "word_ends (c # cs) = (\<not> is_word_char c)"

text \<open>Modelled from the spec: matching a literal piece of a pattern; the rest of \<open>s\<close>
  after the prefix \<open>p\<close>, if \<open>s\<close> starts with \<open>p\<close>.\<close>

fun after_prefix :: "string \<Rightarrow> string \<Rightarrow> string option" where
  "after_prefix [] s = Some s"
| "after_prefix (p # ps) [] = None"
| "after_prefix (p # ps) (c # cs) = (if p = c then after_prefix ps cs else None)"

text \<open>Modelled from the spec: the words of a text, for the word-sequence heuristics; the
  text is cut into maximal runs of word characters and of other characters, and the flag
  of a run says which of the two it is.\<close>

fun runs :: "string \<Rightarrow> (bool \<times> string) list" where
  "runs [] = []"
| "runs (c # cs) =
     (case runs cs of
        [] \<Rightarrow> [(is_word_char c, [c])]
      | (b, r) # rest \<Rightarrow>
          if b = is_word_char c then (b, c # r) # rest
          else (is_word_char c, [c]) # (b, r) # rest)"

text \<open>
  Modelled from the spec: names by "capitalized-word-sequence heuristics". A capitalized
  word is an upper-case letter followed by lower-case letters; a name candidate is a
  maximal sequence of two or more capitalized words with single blanks between them.
\<close>

fun capitalized :: "string \<Rightarrow> bool" where
  "capitalized [] = False"
| "capitalized (c # cs) = (is_upper c \<and> cs \<noteq> [] \<and> list_all is_lower cs)"

fun join_words :: "string list \<Rightarrow> string" where
  "join_words [] = []"
| "join_words [w] = w"
| "join_words (w # v # ws) = w @ '' '' @ join_words (v # ws)"

definition flush :: "string list \<Rightarrow> string list" where
  "flush cur = (if 2 \<le> length cur then [join_words (rev cur)] else [])"

fun names_acc :: "string list \<Rightarrow> (bool \<times> string) list \<Rightarrow> string list" where
  "names_acc cur [] = flush cur"
| "names_acc cur ((is_word, r) # rs) =
     (if is_word then
        (if capitalized r then names_acc (r # cur) rs
         else flush cur @ names_acc [] rs)
      else
        (if r = '' '' then names_acc cur rs
         else flush cur @ names_acc [] rs))"

definition name_candidates :: "string \<Rightarrow> string list" where
  "name_candidates text = names_acc [] (runs text)"

text \<open>
  Modelled from the spec: ages by the pattern
  \<^verbatim>\<open>\b\d{1,3}\s*(years? old|yo)\b\<close>. \<open>age_at s\<close> matches the pattern at the start of
  \<open>s\<close>, a word boundary being there already; \<open>ages_from\<close> tries every position of the
  text, \<open>prev_word\<close> telling whether the character before is a word character.
\<close>

definition digit_value :: "char \<Rightarrow> nat" where
  "digit_value c = (case map_of (zip ''0123456789'' [0, 1, 2, 3, 4, 5, 6, 7, 8, 9]) c of
                      None \<Rightarrow> 0 | Some d \<Rightarrow> d)"

definition number_of :: "string \<Rightarrow> nat" where
  "number_of ds = fold (\<lambda>c n. 10 * n + digit_value c) ds 0"

definition unit_follows :: "string \<Rightarrow> bool" where
  "unit_follows s =
     list_ex (\<lambda>u. case after_prefix u s of None \<Rightarrow> False | Some rest \<Rightarrow> word_ends rest)
       [''years old'', ''year old'', ''yo'']"

definition age_at :: "string \<Rightarrow> nat option" where
  "age_at s =
     (let ds = takeWhile is_digit s;
          rest = dropWhile is_whitespace (dropWhile is_digit s)
      in if 1 \<le> length ds \<and> length ds \<le> 3 \<and> unit_follows rest
         then Some (number_of ds) else None)"

fun ages_from :: "bool \<Rightarrow> string \<Rightarrow> nat list" where
  "ages_from prev_word [] = []"
| "ages_from prev_word (c # cs) =
     (if prev_word then ages_from (is_word_char c) cs
      else (case age_at (c # cs) of
              None \<Rightarrow> ages_from (is_word_char c) cs
            | Some n \<Rightarrow> n # ages_from (is_word_char c) cs))"

definition age_candidates :: "string \<Rightarrow> nat list" where
  "age_candidates text = ages_from False text"

text \<open>
  Modelled from the spec: locations by "known-city/state gazetteer lookup". The
  gazetteer is part of the configuration; an entry is found when it stands in the text
  as a whole word or sequence of words.
\<close>

fun occurs_from :: "bool \<Rightarrow> string \<Rightarrow> string \<Rightarrow> bool" where
  "occurs_from prev_word g [] = False"
| "occurs_from prev_word g (c # cs) =
     (if prev_word then occurs_from (is_word_char c) g cs
      else (case after_prefix g (c # cs) of
              None \<Rightarrow> occurs_from (is_word_char c) g cs
            | Some rest \<Rightarrow> if word_ends rest then True else occurs_from (is_word_char c) g cs))"

definition occurs :: "string \<Rightarrow> string \<Rightarrow> bool" where
  "occurs g text = (g \<noteq> [] \<and> occurs_from False g text)"

definition location_candidates :: "string list \<Rightarrow> string \<Rightarrow> string list" where
  "location_candidates gazetteer text = filter (\<lambda>g. occurs g text) gazetteer"

text \<open>Modelled from the spec: the strength of a pattern-based entity, "capped at 0.5".\<close>

definition pattern_strength :: real where
  "pattern_strength = 1 / 2"

definition pattern_based :: "string list \<Rightarrow> string \<Rightarrow> extracted_entity list" where
  "pattern_based gazetteer text =
     map (\<lambda>n. \<lparr>e_field = ''name'', e_value = Text n, e_strength = pattern_strength\<rparr>)
       (name_candidates text) @
     map (\<lambda>a. \<lparr>e_field = ''age'', e_value = Number a, e_strength = pattern_strength\<rparr>)
       (age_candidates text) @
     map (\<lambda>l. \<lparr>e_field = ''location'', e_value = Text l, e_strength = pattern_strength\<rparr>)
       (location_candidates gazetteer text)"

text \<open>Modelled from the spec: the AI-assisted strategy, which "on backend error or
  malformed response ... falls back to the pattern-based path".\<close>

definition ai_assisted ::
  "(string \<Rightarrow> backend_reply) \<Rightarrow> string list \<Rightarrow> string \<Rightarrow> extracted_entity list" where
  "ai_assisted backend gazetteer text =
     (case backend text of
        Entities es \<Rightarrow> es
      | BackendError m \<Rightarrow> pattern_based gazetteer text
      | MalformedReply \<Rightarrow> pattern_based gazetteer text)"

datatype strategy = AI_assisted | Pattern_based

record extractor_config =
  strategy :: strategy
  gazetteer :: "string list"

definition extract_entities ::
  "extractor_config \<Rightarrow> (string \<Rightarrow> backend_reply) \<Rightarrow> string \<Rightarrow> extracted_entity list" where
  "extract_entities cfg backend text =
     (case strategy cfg of
        AI_assisted \<Rightarrow> ai_assisted backend (gazetteer cfg) text
      | Pattern_based \<Rightarrow> pattern_based (gazetteer cfg) text)"

section \<open>The Correlator\<close>















section \<open>Properties of the routes\<close>

lemma post_person_obj:
  "post_person db (JObj b) =
    (if \<not> truthy (field b ''name'') \<or> \<not> truthy (field b ''faceId'') then
       (status_json 400 (JObj [(''error'', JStr ''Name and faceId are required'')]), db)
     else
       (status_json 201 (JObj
                   [(''status'', JStr ''success''),
                    (''message'', JStr ''Person added successfully''),
                    (''person'', JObj (newPerson db b))]),
        db @ [newPerson db b]))"
  by (simp add: post_person_def post_person_try_def)

lemma post_person_unchanged:
  "status (fst (post_person db b)) \<noteq> 201 \<Longrightarrow> snd (post_person db b) = db"
  by (cases b) (simp_all add: post_person_def post_person_try_def status_json_def split: if_splits)

lemma post_person_appends:
  "status (fst (post_person db b)) = 201 \<Longrightarrow>
     \<exists>p. snd (post_person db b) = db @ [p] \<and> truthy (field p ''faceId'')"
  by (cases b)
     (simp_all add: post_person_def post_person_try_def status_json_def newPerson_def field_def
        split: if_splits)

lemma get_search_snd: "snd (get_search db q) = db"
  by (simp add: get_search_def Let_def split: option.splits)

lemma get_personId_snd: "snd (get_personId db i) = db"
  by (simp add: get_personId_def split: option.splits)

lemma get_all_snd: "snd (get_all db) = db"
  by (simp add: get_all_def)

lemma app_faceId_truthy:
  assumes "\<forall>p \<in> set db. truthy (field p ''faceId'')"
  shows "\<forall>p \<in> set (snd (app clk db r)). truthy (field p ''faceId'')"
proof (cases r)
  case (PersonAdd b)
  show ?thesis
  proof (cases "status (fst (post_person db b)) = 201")
    case True
    from post_person_appends [OF True] obtain p
      where "snd (post_person db b) = db @ [p]" and "truthy (field p ''faceId'')" by blast
    with assms PersonAdd show ?thesis by auto
  next
    case False
    with assms PersonAdd show ?thesis by (simp add: post_person_unchanged)
  qed
qed (use assms in \<open>simp_all add: get_search_snd get_personId_snd get_all_snd\<close>)

lemma run_faceId_truthy:
  "\<forall>p \<in> set db. truthy (field p ''faceId'') \<Longrightarrow>
   \<forall>p \<in> set (run db rs). truthy (field p ''faceId'')"
proof (induction rs arbitrary: db)
  case Nil
  then show ?case by simp
next
  case (Cons cr rs)
  obtain clk r where cr: "cr = (clk, r)" by (cases cr)
  from Cons.prems have "\<forall>p \<in> set (snd (app clk db r)). truthy (field p ''faceId'')"
    by (rule app_faceId_truthy)
  then show ?case unfolding cr by (simp add: Cons.IH)
qed

lemma personDatabase_faceId_truthy:
  "\<forall>p \<in> set personDatabase. truthy (field p ''faceId'')"
  by (simp add: personDatabase_def field_def)

lemma find_first:
  assumes "\<forall>q \<in> set pre. \<not> P q" and "P p"
  shows "find P (pre @ p # post) = Some p"
  using assms by (induction pre) simp_all

text \<open>
  C1. A request that carries none of its required input is rejected with status 400
  before anything else happens: a person search whose query has no \<^verbatim>\<open>faceId\<close> is
  answered \<^verbatim>\<open>faceId is required\<close>, the same answer whatever the database holds,
  and the database stays as it was; a video-process request with no uploaded file is
  answered \<^verbatim>\<open>No video file uploaded\<close>, whatever the clock shows.
\<close>

theorem missing_required_input_rejected:
  assumes "map_of query ''faceId'' = None"
  shows "get_search db query =
           (status_json 400 (JObj [(''error'', JStr ''faceId is required'')]), db) \<and>
         app clk db (PersonGet ''search'' query) =
           (status_json 400 (JObj [(''error'', JStr ''faceId is required'')]), db) \<and>
         app clk db (FacialProcess None) =
           (status_json 400 (JObj [(''error'', JStr ''No video file uploaded'')]), db)"
  using assms by (simp add: get_search_def field_def post_process_def)

theorem missing_required_input_rejected_witness:
  "map_of ([] :: obj) ''faceId'' = None \<and>
   get_search personDatabase [] =
     (status_json 400 (JObj [(''error'', JStr ''faceId is required'')]), personDatabase)"
  using missing_required_input_rejected [of "[]" personDatabase] by simp

text \<open>
  C2. A search that reaches the database and finds no record is not answered on the
  success path: the search for the face id \<^verbatim>\<open>face-999\<close> over the initial database is
  answered with status 404 and an \<^verbatim>\<open>error\<close> property.
\<close>

theorem no_match_counterexample:
  "status (fst (get_search personDatabase [(''faceId'', JStr ''face-999'')])) = 404 \<and>
   get_prop (body (fst (get_search personDatabase [(''faceId'', JStr ''face-999'')]))) ''error''
     = JStr ''Person not found''"
  by (simp add: get_search_def personDatabase_def field_def status_json_def)

text \<open>
  C2, as the routes have it. A face-id search with a usable \<^verbatim>\<open>faceId\<close> that matches
  no record, and a lookup by an id that no record has, are answered with status 404 and
  the body \<^verbatim>\<open>Person not found\<close>; the database stays as it was. The answer differs
  from the 400 of a missing \<^verbatim>\<open>faceId\<close> and from the 500 of a failure.
\<close>

theorem no_match_is_not_found:
  assumes "truthy (field query ''faceId'')"
    and "\<forall>p \<in> set db. \<not> strict_eq (field p ''faceId'') (field query ''faceId'')"
    and "\<forall>p \<in> set db. \<not> strict_eq (field p ''id'') (JStr personId)"
  shows "get_search db query =
           (status_json 404 (JObj
              [(''error'', JStr ''Person not found''),
               (''message'', JStr ''No matching person found for the given faceId'')]), db) \<and>
         get_personId db personId =
           (status_json 404 (JObj
              [(''error'', JStr ''Person not found''),
               (''message'', JStr ''No person found with the given ID'')]), db)"
proof -
  from assms(2)
  have "find (\<lambda>p. strict_eq (field p ''faceId'') (field query ''faceId'')) db = None"
    by (simp add: find_None_iff)
  moreover from assms(3)
  have "find (\<lambda>p. strict_eq (field p ''id'') (JStr personId)) db = None"
    by (simp add: find_None_iff)
  ultimately show ?thesis
    using assms(1) by (simp add: get_search_def get_personId_def)
qed

theorem no_match_is_not_found_witness:
  "truthy (field [(''faceId'', JStr ''face-999'')] ''faceId'') \<and>
   get_search personDatabase [(''faceId'', JStr ''face-999'')] =
     (status_json 404 (JObj
        [(''error'', JStr ''Person not found''),
         (''message'', JStr ''No matching person found for the given faceId'')]), personDatabase) \<and>
   get_personId personDatabase ''7'' =
     (status_json 404 (JObj
        [(''error'', JStr ''Person not found''),
         (''message'', JStr ''No person found with the given ID'')]), personDatabase)"
proof -
  have 1: "truthy (field [(''faceId'', JStr ''face-999'')] ''faceId'')"
    by (simp add: field_def)
  have 2: "\<forall>p \<in> set personDatabase.
      \<not> strict_eq (field p ''faceId'') (field [(''faceId'', JStr ''face-999'')] ''faceId'')"
    by (simp add: personDatabase_def field_def)
  have 3: "\<forall>p \<in> set personDatabase. \<not> strict_eq (field p ''id'') (JStr ''7'')"
    by (simp add: personDatabase_def field_def)
  from no_match_is_not_found [OF 1 2 3] 1 show ?thesis by simp
qed

text \<open>
  C3. A person created without \<^verbatim>\<open>birthday\<close>, \<^verbatim>\<open>occupation\<close> or \<^verbatim>\<open>location\<close> does
  not have those properties absent: posting only a name and a face id to the initial
  database stores, and returns, a record in which each of the three is present with the
  value \<^verbatim>\<open>null\<close>.
\<close>

theorem absent_fields_stored_as_null_counterexample:
  "map_of (last (snd (post_person personDatabase
      (JObj [(''name'', JStr ''Alice Johnson''), (''faceId'', JStr ''face-003'')])))) ''birthday''
     = Some JNull \<and>
   map_of (last (snd (post_person personDatabase
      (JObj [(''name'', JStr ''Alice Johnson''), (''faceId'', JStr ''face-003'')])))) ''occupation''
     = Some JNull \<and>
   map_of (last (snd (post_person personDatabase
      (JObj [(''name'', JStr ''Alice Johnson''), (''faceId'', JStr ''face-003'')])))) ''location''
     = Some JNull \<and>
   get_prop (body (fst (post_person personDatabase
      (JObj [(''name'', JStr ''Alice Johnson''), (''faceId'', JStr ''face-003'')])))) ''person''
     = JObj
        [(''id'', JStr ''3''),
         (''faceId'', JStr ''face-003''),
         (''name'', JStr ''Alice Johnson''),
         (''birthday'', JNull),
         (''interests'', JArr []),
         (''occupation'', JNull),
         (''location'', JNull),
         (''socialMedia'', JObj [])]"
  by (simp add: post_person_obj field_def newPerson_def js_or_def status_json_def
      personDatabase_def toString.simps digit_char_def)

text \<open>
  C3, as the route has it. Every successful POST stores and returns a record with all
  eight properties. A property the body did not supply is present with a placeholder:
  \<^verbatim>\<open>null\<close> for \<^verbatim>\<open>birthday\<close>, \<^verbatim>\<open>occupation\<close> and \<^verbatim>\<open>location\<close>, the empty array
  for \<^verbatim>\<open>interests\<close> and the empty object for \<^verbatim>\<open>socialMedia\<close>.
\<close>

theorem absent_fields_stored_as_placeholders:
  assumes "truthy (field b ''name'')" and "truthy (field b ''faceId'')"
  shows "\<exists>p. snd (post_person db (JObj b)) = db @ [p] \<and>
           get_prop (body (fst (post_person db (JObj b)))) ''person'' = JObj p \<and>
           map fst p = [''id'', ''faceId'', ''name'', ''birthday'', ''interests'',
                        ''occupation'', ''location'', ''socialMedia''] \<and>
           (map_of b ''birthday'' = None \<longrightarrow> map_of p ''birthday'' = Some JNull) \<and>
           (map_of b ''occupation'' = None \<longrightarrow> map_of p ''occupation'' = Some JNull) \<and>
           (map_of b ''location'' = None \<longrightarrow> map_of p ''location'' = Some JNull) \<and>
           (map_of b ''interests'' = None \<longrightarrow> map_of p ''interests'' = Some (JArr [])) \<and>
           (map_of b ''socialMedia'' = None \<longrightarrow> map_of p ''socialMedia'' = Some (JObj []))"
  using assms
  by (simp add: post_person_obj status_json_def newPerson_def js_or_def field_def)

theorem absent_fields_stored_as_placeholders_witness:
  "truthy (field [(''name'', JStr ''Alice Johnson''), (''faceId'', JStr ''face-003'')] ''name'') \<and>
   truthy (field [(''name'', JStr ''Alice Johnson''), (''faceId'', JStr ''face-003'')] ''faceId'') \<and>
   map_of [(''name'', JStr ''Alice Johnson''), (''faceId'', JStr ''face-003'')] ''birthday'' = None \<and>
   map_of [(''name'', JStr ''Alice Johnson''), (''faceId'', JStr ''face-003'')] ''occupation'' = None \<and>
   map_of [(''name'', JStr ''Alice Johnson''), (''faceId'', JStr ''face-003'')] ''location'' = None \<and>
   map_of [(''name'', JStr ''Alice Johnson''), (''faceId'', JStr ''face-003'')] ''interests'' = None \<and>
   map_of [(''name'', JStr ''Alice Johnson''), (''faceId'', JStr ''face-003'')] ''socialMedia'' = None \<and>
   (\<exists>p. snd (post_person personDatabase
            (JObj [(''name'', JStr ''Alice Johnson''), (''faceId'', JStr ''face-003'')]))
          = personDatabase @ [p] \<and>
        map_of p ''birthday'' = Some JNull \<and>
        map_of p ''occupation'' = Some JNull \<and>
        map_of p ''location'' = Some JNull \<and>
        map_of p ''interests'' = Some (JArr []) \<and>
        map_of p ''socialMedia'' = Some (JObj []))"
proof -
  let ?b = "[(''name'', JStr ''Alice Johnson''), (''faceId'', JStr ''face-003'')]"
  have 1: "truthy (field ?b ''name'')" and 2: "truthy (field ?b ''faceId'')"
    by (simp_all add: field_def)
  have 3: "map_of ?b ''birthday'' = None" "map_of ?b ''occupation'' = None"
    "map_of ?b ''location'' = None" "map_of ?b ''interests'' = None"
    "map_of ?b ''socialMedia'' = None"
    by simp_all
  from absent_fields_stored_as_placeholders [OF 1 2, of personDatabase] 3
  obtain p where "snd (post_person personDatabase (JObj ?b)) = personDatabase @ [p]"
    "map_of p ''birthday'' = Some JNull" "map_of p ''occupation'' = Some JNull"
    "map_of p ''location'' = Some JNull" "map_of p ''interests'' = Some (JArr [])"
    "map_of p ''socialMedia'' = Some (JObj [])"
    by blast
  with 1 2 3 show ?thesis by blast
qed

text \<open>
  C4. With no recognition backend behind it, a video-process request that carries a
  file is answered with status 200, never with an error: the answer echoes the name of
  the uploaded file (\<^verbatim>\<open>req.file.filename\<close>) and lists no detected faces. The livestream capture likewise answers 200
  and echoes the URL it was given.
\<close>

theorem no_backend_still_succeeds:
  "status (post_process clk (Some f)) = 200 \<and>
   get_prop (body (post_process clk (Some f))) ''videoFile'' = JStr (filename f) \<and>
   get_prop (body (post_process clk (Some f))) ''detectedFaces'' = JArr [] \<and>
   get_prop (body (post_process clk (Some f))) ''error'' = JUndefined \<and>
   (truthy (field b ''livestreamUrl'') \<longrightarrow>
      status (post_capture clk (JObj b)) = 200 \<and>
      get_prop (body (post_capture clk (JObj b))) ''livestreamUrl'' = field b ''livestreamUrl'' \<and>
      get_prop (body (post_capture clk (JObj b))) ''error'' = JUndefined)"
  by (simp add: post_process_def post_capture_def post_capture_try_def json_def status_json_def)

theorem no_backend_still_succeeds_witness:
  "truthy (field [(''livestreamUrl'', JStr ''https://www.instagram.com/live/abc123'')] ''livestreamUrl'') \<and>
   status (post_process \<lparr>Date_now = 1764637200000, toISOString = ''2025-12-02T01:00:00.000Z''\<rparr>
     (Some \<lparr>originalname = ''video.mp4'', filename = ''1764637200000.mp4'',
            path = ''uploads/1764637200000.mp4''\<rparr>)) = 200 \<and>
   get_prop (body (post_process \<lparr>Date_now = 1764637200000, toISOString = ''2025-12-02T01:00:00.000Z''\<rparr>
     (Some \<lparr>originalname = ''video.mp4'', filename = ''1764637200000.mp4'',
            path = ''uploads/1764637200000.mp4''\<rparr>))) ''videoFile'' = JStr ''1764637200000.mp4'' \<and>
   get_prop (body (post_capture \<lparr>Date_now = 1764637200000, toISOString = ''2025-12-02T01:00:00.000Z''\<rparr>
     (JObj [(''livestreamUrl'', JStr ''https://www.instagram.com/live/abc123'')]))) ''livestreamUrl''
     = JStr ''https://www.instagram.com/live/abc123''"
  using no_backend_still_succeeds
    [of "\<lparr>Date_now = 1764637200000, toISOString = ''2025-12-02T01:00:00.000Z''\<rparr>"
        "\<lparr>originalname = ''video.mp4'', filename = ''1764637200000.mp4'',
            path = ''uploads/1764637200000.mp4''\<rparr>"
        "[(''livestreamUrl'', JStr ''https://www.instagram.com/live/abc123'')]"]
  by (simp add: field_def)

text \<open>
  C6. Frame analysis is a function of its input alone: two analyze-frame requests with
  the same body get the same status, the same number of faces and the same list of faces
  (face ids, confidences, bounding boxes, attributes), whatever the clock shows and
  whatever the person database holds at either time; only the timestamp of the answer
  follows the clock. The request leaves the person database as it was. With image data
  present the list is the one face of \<open>mockFaces\<close>.
\<close>

theorem analyze_frame_deterministic:
  "get_prop (body (fst (app clk1 db1 (FacialAnalyzeFrame b)))) ''faces'' =
     get_prop (body (fst (app clk2 db2 (FacialAnalyzeFrame b)))) ''faces'' \<and>
   get_prop (body (fst (app clk1 db1 (FacialAnalyzeFrame b)))) ''facesDetected'' =
     get_prop (body (fst (app clk2 db2 (FacialAnalyzeFrame b)))) ''facesDetected'' \<and>
   status (fst (app clk1 db1 (FacialAnalyzeFrame b))) =
     status (fst (app clk2 db2 (FacialAnalyzeFrame b))) \<and>
   snd (app clk1 db1 (FacialAnalyzeFrame b)) = db1 \<and>
   (truthy (get_prop b ''imageData'') \<longrightarrow>
      get_prop (body (fst (app clk1 db1 (FacialAnalyzeFrame b)))) ''faces'' = JArr mockFaces)"
  by (cases b)
     (simp_all add: post_analyze_frame_def post_analyze_frame_try_def json_def status_json_def
        field_def)

theorem analyze_frame_deterministic_witness:
  "truthy (get_prop (JObj [(''imageData'', JStr ''aGVsbG8='')]) ''imageData'') \<and>
   get_prop (body (fst (app \<lparr>Date_now = 1764637200000, toISOString = ''2025-12-02T01:00:00.000Z''\<rparr>
       personDatabase (FacialAnalyzeFrame (JObj [(''imageData'', JStr ''aGVsbG8='')]))))) ''faces''
     = get_prop (body (fst (app \<lparr>Date_now = 1764637260000, toISOString = ''2025-12-02T01:01:00.000Z''\<rparr>
       [] (FacialAnalyzeFrame (JObj [(''imageData'', JStr ''aGVsbG8='')]))))) ''faces'' \<and>
   get_prop (body (fst (app \<lparr>Date_now = 1764637200000, toISOString = ''2025-12-02T01:00:00.000Z''\<rparr>
       personDatabase (FacialAnalyzeFrame (JObj [(''imageData'', JStr ''aGVsbG8='')]))))) ''faces''
     = JArr mockFaces"
proof -
  let ?c1 = "\<lparr>Date_now = 1764637200000, toISOString = ''2025-12-02T01:00:00.000Z''\<rparr>"
  let ?c2 = "\<lparr>Date_now = 1764637260000, toISOString = ''2025-12-02T01:01:00.000Z''\<rparr>"
  let ?b = "JObj [(''imageData'', JStr ''aGVsbG8='')]"
  have t: "truthy (get_prop ?b ''imageData'')" by simp
  note inst = analyze_frame_deterministic [of ?c1 personDatabase ?b ?c2 "[]"]
  from inst have same: "get_prop (body (fst (app ?c1 personDatabase (FacialAnalyzeFrame ?b)))) ''faces'' =
     get_prop (body (fst (app ?c2 [] (FacialAnalyzeFrame ?b)))) ''faces''"
    by (rule conjunct1)
  from inst t have faces: "get_prop (body (fst (app ?c1 personDatabase (FacialAnalyzeFrame ?b)))) ''faces''
     = JArr mockFaces"
    by blast
  from t same faces show ?thesis by (intro conjI)
qed

text \<open>
  C8. The GET routes of the person-details router return the database they were given.
  A POST answered with 400 does too; a POST changes the database only when it answers
  201, and then the new database is the old one with exactly one record appended.
\<close>

theorem person_database_frame:
  "snd (get_search db q) = db \<and>
   snd (get_personId db i) = db \<and>
   snd (get_all db) = db \<and>
   snd (app clk db (PersonGet seg q)) = db \<and>
   (status (fst (post_person db b)) = 400 \<longrightarrow> snd (post_person db b) = db) \<and>
   (snd (post_person db b) \<noteq> db \<longrightarrow> status (fst (post_person db b)) = 201) \<and>
   (status (fst (post_person db b)) = 201 \<longrightarrow> (\<exists>p. snd (post_person db b) = db @ [p]))"
proof -
  have "status (fst (post_person db b)) = 400 \<longrightarrow> snd (post_person db b) = db"
    by (simp add: post_person_unchanged)
  moreover have "snd (post_person db b) \<noteq> db \<longrightarrow> status (fst (post_person db b)) = 201"
    using post_person_unchanged by blast
  moreover have "status (fst (post_person db b)) = 201 \<longrightarrow> (\<exists>p. snd (post_person db b) = db @ [p])"
    using post_person_appends by blast
  ultimately show ?thesis
    by (simp add: get_search_snd get_personId_snd get_all_snd)
qed

theorem person_database_frame_witness:
  "status (fst (post_person personDatabase (JObj [(''name'', JStr ''Alice Johnson'')]))) = 400 \<and>
   snd (post_person personDatabase (JObj [(''name'', JStr ''Alice Johnson'')])) = personDatabase \<and>
   status (fst (post_person personDatabase
     (JObj [(''name'', JStr ''Alice Johnson''), (''faceId'', JStr ''face-003'')]))) = 201 \<and>
   snd (post_person personDatabase
     (JObj [(''name'', JStr ''Alice Johnson''), (''faceId'', JStr ''face-003'')])) \<noteq> personDatabase \<and>
   (\<exists>p. snd (post_person personDatabase
     (JObj [(''name'', JStr ''Alice Johnson''), (''faceId'', JStr ''face-003'')])) = personDatabase @ [p])"
proof -
  let ?clk = "\<lparr>Date_now = 1764637200000, toISOString = ''2025-12-02T01:00:00.000Z''\<rparr>"
  let ?bad = "JObj [(''name'', JStr ''Alice Johnson'')]"
  let ?good = "JObj [(''name'', JStr ''Alice Johnson''), (''faceId'', JStr ''face-003'')]"
  have 1: "status (fst (post_person personDatabase ?bad)) = 400"
    by (simp add: post_person_obj field_def status_json_def)
  have 2: "status (fst (post_person personDatabase ?good)) = 201"
    by (simp add: post_person_obj field_def status_json_def)
  have 3: "snd (post_person personDatabase ?good) \<noteq> personDatabase"
    by (simp add: post_person_obj field_def)
  from person_database_frame [of personDatabase "[]" "''1''" ?clk "[]" ?bad] 1
  have 4: "snd (post_person personDatabase ?bad) = personDatabase" by blast
  from person_database_frame [of personDatabase "[]" "''1''" ?clk "[]" ?good] 2
  have 5: "\<exists>p. snd (post_person personDatabase ?good) = personDatabase @ [p]" by blast
  from 1 2 3 4 5 show ?thesis by blast
qed

text \<open>
  C10. For every process id, whatever the database and the clock, the results route
  answers 200 with that id, the status \<^verbatim>\<open>completed\<close> and an empty list of detected
  faces, and no error; there is no stored set of issued process ids to miss.
\<close>

theorem results_always_completed:
  "status (fst (app clk db (FacialResults processId))) = 200 \<and>
   get_prop (body (fst (app clk db (FacialResults processId)))) ''processId'' = JStr processId \<and>
   get_prop (body (fst (app clk db (FacialResults processId)))) ''status'' = JStr ''completed'' \<and>
   get_prop (body (fst (app clk db (FacialResults processId)))) ''detectedFaces'' = JArr [] \<and>
   get_prop (body (fst (app clk db (FacialResults processId)))) ''error'' = JUndefined \<and>
   snd (app clk db (FacialResults processId)) = db"
  by (simp add: get_results_def json_def status_json_def)

text \<open>
  C9. Not every face id that the POST route accepts twice can be searched for. The route
  stores any truthy \<^verbatim>\<open>faceId\<close>, also a number; the search compares the stored value
  with the query parameter, a string, by \<^verbatim>\<open>===\<close>. Posting two persons with the
  face id 123 to the initial database is answered 201 both times, and the search
  \<^verbatim>\<open>?faceId=123\<close> afterwards is answered 404 instead of with the earlier of the two.
\<close>

theorem numeric_faceId_not_found_counterexample:
  "status (fst (post_person personDatabase
      (JObj [(''name'', JStr ''Pat Doe''), (''faceId'', JNum 123)]))) = 201 \<and>
   status (fst (post_person
      (snd (post_person personDatabase
         (JObj [(''name'', JStr ''Pat Doe''), (''faceId'', JNum 123)])))
      (JObj [(''name'', JStr ''Pat Roe''), (''faceId'', JNum 123)]))) = 201 \<and>
   get_search
     (snd (post_person
        (snd (post_person personDatabase
           (JObj [(''name'', JStr ''Pat Doe''), (''faceId'', JNum 123)])))
        (JObj [(''name'', JStr ''Pat Roe''), (''faceId'', JNum 123)])))
     [(''faceId'', JStr ''123'')] =
     (status_json 404 (JObj
        [(''error'', JStr ''Person not found''),
         (''message'', JStr ''No matching person found for the given faceId'')]),
      snd (post_person
        (snd (post_person personDatabase
           (JObj [(''name'', JStr ''Pat Doe''), (''faceId'', JNum 123)])))
        (JObj [(''name'', JStr ''Pat Roe''), (''faceId'', JNum 123)])))"
  by (simp add: post_person_obj field_def newPerson_def js_or_def status_json_def
      personDatabase_def get_search_def)

text \<open>
  C9, for face ids that are strings. Face ids are not kept unique. In every database
  reachable from the initial one by any sequence of requests, if a record \<open>p\<close> whose
  face id is the string \<open>f\<close> is there and no record before it has that face id, then
  posting a further person with the face id \<open>f\<close> is answered 201 and appends the new
  record; a search for \<open>f\<close> afterwards still answers with \<open>p\<close>, the earliest record
  with that face id.
\<close>

theorem duplicate_faceId_accepted:
  assumes reach: "db = run personDatabase rs"
    and parts: "db = pre @ p # post"
    and earliest: "\<forall>q \<in> set pre. \<not> strict_eq (field q ''faceId'') (JStr f)"
    and has: "field p ''faceId'' = JStr f"
    and name: "truthy (field b ''name'')"
    and same: "field b ''faceId'' = JStr f"
  shows "status (fst (post_person db (JObj b))) = 201 \<and>
         snd (post_person db (JObj b)) = db @ [newPerson db b] \<and>
         field (newPerson db b) ''faceId'' = JStr f \<and>
         fst (get_search (snd (post_person db (JObj b))) [(''faceId'', JStr f)]) =
           json (JObj [(''status'', JStr ''success''), (''person'', JObj p)])"
proof -
  have "\<forall>q \<in> set db. truthy (field q ''faceId'')"
    unfolding reach by (rule run_faceId_truthy) (rule personDatabase_faceId_truthy)
  with parts has have f: "f \<noteq> []" by auto
  with name same have post: "post_person db (JObj b) =
      (status_json 201 (JObj
         [(''status'', JStr ''success''),
          (''message'', JStr ''Person added successfully''),
          (''person'', JObj (newPerson db b))]),
       db @ [newPerson db b])"
    by (simp add: post_person_obj)
  have new: "field (newPerson db b) ''faceId'' = JStr f"
    using same by (simp add: newPerson_def field_def)
  have "find (\<lambda>q. strict_eq (field q ''faceId'') (JStr f)) (pre @ p # (post @ [newPerson db b])) = Some p"
    using earliest has by (intro find_first) simp_all
  then have "find (\<lambda>q. strict_eq (field q ''faceId'') (JStr f)) (db @ [newPerson db b]) = Some p"
    by (simp add: parts)
  with f have "fst (get_search (db @ [newPerson db b]) [(''faceId'', JStr f)]) =
      json (JObj [(''status'', JStr ''success''), (''person'', JObj p)])"
    by (simp add: get_search_def field_def)
  with post new show ?thesis by (simp add: status_json_def)
qed

theorem duplicate_faceId_accepted_witness:
  "status (fst (post_person personDatabase
      (JObj [(''name'', JStr ''John Two''), (''faceId'', JStr ''face-001'')]))) = 201 \<and>
   fst (get_search (snd (post_person personDatabase
      (JObj [(''name'', JStr ''John Two''), (''faceId'', JStr ''face-001'')])))
      [(''faceId'', JStr ''face-001'')]) =
     json (JObj [(''status'', JStr ''success''), (''person'', JObj (hd personDatabase))])"
proof -
  let ?b = "[(''name'', JStr ''John Two''), (''faceId'', JStr ''face-001'')]"
  have 1: "personDatabase = run personDatabase []" by simp
  have 2: "personDatabase = [] @ hd personDatabase # tl personDatabase"
    by (simp add: personDatabase_def)
  have 3: "\<forall>q \<in> set []. \<not> strict_eq (field q ''faceId'') (JStr ''face-001'')" by simp
  have 4: "field (hd personDatabase) ''faceId'' = JStr ''face-001''"
    by (simp add: personDatabase_def field_def)
  have 5: "truthy (field ?b ''name'')" by (simp add: field_def)
  have 6: "field ?b ''faceId'' = JStr ''face-001''" by (simp add: field_def)
  from duplicate_faceId_accepted [OF 1 2 3 4 5 6] show ?thesis by blast
qed

section \<open>Properties of the Entity Extractor\<close>

lemma literal_names:
  "name_candidates ''John Smith, 34 years old, lives in Austin'' = [''John Smith'']"
  by code_simp

lemma literal_ages:
  "age_candidates ''John Smith, 34 years old, lives in Austin'' = [34]"
  by code_simp

lemma literal_Austin:
  "occurs ''Austin'' ''John Smith, 34 years old, lives in Austin''"
  by code_simp

lemma pattern_based_strength:
  "\<forall>e \<in> set (pattern_based gz text). e_strength e = pattern_strength"
  by (auto simp: pattern_based_def)

lemma fallback:
  "backend text = BackendError m \<or> backend text = MalformedReply \<Longrightarrow>
   ai_assisted backend gz text = pattern_based gz text"
  by (auto simp: ai_assisted_def)

text \<open>
  C7. When the AI backend answers every text with an error, the extractor still gives
  the pattern-based entities: for the text \<^verbatim>\<open>John Smith, 34 years old, lives in Austin\<close>
  and every gazetteer that knows Austin, whichever strategy is configured, the result
  holds the name \<^verbatim>\<open>John Smith\<close>, the age 34 and the location \<^verbatim>\<open>Austin\<close>, and no
  entity of the result has a strength above 0.5.
\<close>

theorem extraction_falls_back_to_patterns:
  assumes fails: "\<forall>t. \<exists>m. backend t = BackendError m"
    and known: "''Austin'' \<in> set (gazetteer cfg)"
  shows "\<lparr>e_field = ''name'', e_value = Text ''John Smith'', e_strength = 1 / 2\<rparr>
           \<in> set (extract_entities cfg backend ''John Smith, 34 years old, lives in Austin'') \<and>
         \<lparr>e_field = ''age'', e_value = Number 34, e_strength = 1 / 2\<rparr>
           \<in> set (extract_entities cfg backend ''John Smith, 34 years old, lives in Austin'') \<and>
         \<lparr>e_field = ''location'', e_value = Text ''Austin'', e_strength = 1 / 2\<rparr>
           \<in> set (extract_entities cfg backend ''John Smith, 34 years old, lives in Austin'') \<and>
         (\<forall>e \<in> set (extract_entities cfg backend ''John Smith, 34 years old, lives in Austin'').
            e_strength e \<le> 1 / 2)"
proof -
  let ?text = "''John Smith, 34 years old, lives in Austin''"
  from fails obtain m where "backend ?text = BackendError m" by blast
  then have "ai_assisted backend (gazetteer cfg) ?text = pattern_based (gazetteer cfg) ?text"
    by (simp add: fallback)
  then have ex: "extract_entities cfg backend ?text = pattern_based (gazetteer cfg) ?text"
    by (simp add: extract_entities_def split: strategy.split)
  have loc: "''Austin'' \<in> set (location_candidates (gazetteer cfg) ?text)"
    using known literal_Austin by (simp add: location_candidates_def)
  have "\<lparr>e_field = ''name'', e_value = Text ''John Smith'', e_strength = 1 / 2\<rparr>
          \<in> set (pattern_based (gazetteer cfg) ?text)"
    by (simp add: pattern_based_def literal_names pattern_strength_def)
  moreover have "\<lparr>e_field = ''age'', e_value = Number 34, e_strength = 1 / 2\<rparr>
          \<in> set (pattern_based (gazetteer cfg) ?text)"
    by (simp add: pattern_based_def literal_ages pattern_strength_def)
  moreover have "\<lparr>e_field = ''location'', e_value = Text ''Austin'', e_strength = 1 / 2\<rparr>
          \<in> set (pattern_based (gazetteer cfg) ?text)"
    using loc by (simp add: pattern_based_def pattern_strength_def image_iff)
  moreover have "\<forall>e \<in> set (pattern_based (gazetteer cfg) ?text). e_strength e \<le> 1 / 2"
    using pattern_based_strength [of "gazetteer cfg" ?text] by (simp add: pattern_strength_def)
  ultimately show ?thesis unfolding ex by blast
qed

theorem extraction_falls_back_to_patterns_witness:
  "extract_entities \<lparr>strategy = AI_assisted, gazetteer = [''Seattle'', ''Austin'', ''New York'']\<rparr>
     (\<lambda>t. BackendError ''backend unavailable'') ''John Smith, 34 years old, lives in Austin'' =
   [\<lparr>e_field = ''name'', e_value = Text ''John Smith'', e_strength = 1 / 2\<rparr>,
    \<lparr>e_field = ''age'', e_value = Number 34, e_strength = 1 / 2\<rparr>,
    \<lparr>e_field = ''location'', e_value = Text ''Austin'', e_strength = 1 / 2\<rparr>] \<and>
   \<lparr>e_field = ''location'', e_value = Text ''Austin'', e_strength = 1 / 2\<rparr>
     \<in> set (extract_entities
          \<lparr>strategy = AI_assisted, gazetteer = [''Seattle'', ''Austin'', ''New York'']\<rparr>
          (\<lambda>t. BackendError ''backend unavailable'') ''John Smith, 34 years old, lives in Austin'')"
proof -
  let ?cfg = "\<lparr>strategy = AI_assisted, gazetteer = [''Seattle'', ''Austin'', ''New York'']\<rparr>"
  let ?backend = "\<lambda>t :: string. BackendError ''backend unavailable''"
  let ?text = "''John Smith, 34 years old, lives in Austin''"
  have 1: "\<forall>t. \<exists>m. ?backend t = BackendError m" by simp
  have 2: "''Austin'' \<in> set (gazetteer ?cfg)" by simp
  have s: "\<not> occurs ''Seattle'' ?text" and n: "\<not> occurs ''New York'' ?text"
    by code_simp+
  have 3: "extract_entities ?cfg ?backend ?text =
   [\<lparr>e_field = ''name'', e_value = Text ''John Smith'', e_strength = 1 / 2\<rparr>,
    \<lparr>e_field = ''age'', e_value = Number 34, e_strength = 1 / 2\<rparr>,
    \<lparr>e_field = ''location'', e_value = Text ''Austin'', e_strength = 1 / 2\<rparr>]"
    by (simp add: extract_entities_def ai_assisted_def pattern_based_def literal_names
        literal_ages location_candidates_def literal_Austin s n pattern_strength_def)
  from extraction_falls_back_to_patterns [OF 1 2] 3 show ?thesis by blast
qed

section \<open>Properties of the Correlator\<close>










end
